theory Spec2Isabelle
  imports Complex_Main
begin

section \<open>The meal planner: nutrition targets, plan and grocery parsing, image lookup\<close>

text \<open>
  The repository holds three variants of one Streamlit script: \<^verbatim>\<open>meal_text.py\<close>,
  \<^verbatim>\<open>meal_hugging.py\<close> and \<^verbatim>\<open>ai_meal_pexels.py\<close>. Each reads a profile from sidebar
  widgets, derives calorie and protein targets, asks a text model for a plan and a grocery
  list and parses both with regular expressions. The definitions below follow the scripts
  statement by statement.
\<close>

subsection \<open>Energy and macro calculator\<close>

text \<open>
  Python floats are idealised as exact reals: \<open>weight\<close> and \<open>height\<close> come from
  \<^verbatim>\<open>st.number_input\<close> with a float minimum, \<open>age\<close> and \<open>body_fat_percent\<close> from one with an
  integer minimum. The widgets' selections are the strings the scripts compare against.
\<close>

datatype variant = Meal_Text | Meal_Hugging | Ai_Meal_Pexels

record UserProfile =
  age :: int
  gender :: string
  weight :: real
  height :: real
  body_fat_percent :: int
  activity_level :: string
  goal :: string

text \<open>
  The options each widget offers; a profile read from the form is one of them.
  \<^verbatim>\<open>meal_text.py\<close> has no field for the body fat.
\<close>

definition gender_options :: "string list" where
  "gender_options = [''Male'', ''Female'', ''Other'']"

definition goal_options :: "string list" where
  "goal_options = [''Fat Loss'', ''Muscle Gain'', ''Maintain Weight'']"

fun activity_options :: "variant \<Rightarrow> string list" where
  "activity_options Ai_Meal_Pexels =
     [''Sedentary'', ''Light'', ''Moderate'', ''Active'', ''Extra_Active'']"
| "activity_options Meal_Text = [''Sedentary'', ''Light'', ''Moderate'', ''Active'']"
| "activity_options Meal_Hugging = [''Sedentary'', ''Light'', ''Moderate'', ''Active'']"

fun min_weight :: "variant \<Rightarrow> real" where
  "min_weight Meal_Hugging = 30"
| "min_weight Meal_Text = 10"
| "min_weight Ai_Meal_Pexels = 10"

definition valid_profile :: "variant \<Rightarrow> UserProfile \<Rightarrow> bool" where
  "valid_profile v p =
     (1 \<le> age p \<and> age p \<le> 120 \<and> gender p \<in> set gender_options
      \<and> min_weight v \<le> weight p \<and> 100 \<le> height p
      \<and> (v = Meal_Text \<or> 5 \<le> body_fat_percent p \<and> body_fat_percent p \<le> 50)
      \<and> activity_level p \<in> set (activity_options v)
      \<and> goal p \<in> set goal_options)"

definition bmr :: "UserProfile \<Rightarrow> real" where
  "bmr p =
     (if gender p = ''Male'' then
        10 * weight p + 6.25 * height p - 5 * of_int (age p) + 5
      else if gender p = ''Female'' then
        10 * weight p + 6.25 * height p - 5 * of_int (age p) - 161
      else
        10 * weight p + 6.25 * height p - 5 * of_int (age p))"

text \<open>The dictionary \<^verbatim>\<open>activity_factors\<close>, in source order; a missing key raises.\<close>

datatype exn = KeyError | TypeError | IndexError | JSONDecodeError | RequestException
  | UnidentifiedImageError

fun activity_factors :: "variant \<Rightarrow> (string \<times> real) list" where
  "activity_factors Ai_Meal_Pexels =
     [(''Sedentary'', 1.2), (''Light'', 1.375), (''Moderate'', 1.55), (''Active'', 1.725),
      (''Extra_Active'', 1.9)]"
| "activity_factors Meal_Text =
     [(''Sedentary'', 1.2), (''Light'', 1.375), (''Moderate'', 1.55), (''Active'', 1.725)]"
| "activity_factors Meal_Hugging =
     [(''Sedentary'', 1.2), (''Light'', 1.375), (''Moderate'', 1.55), (''Active'', 1.725)]"

definition tdee :: "variant \<Rightarrow> UserProfile \<Rightarrow> exn + real" where
  "tdee v p =
     (case map_of (activity_factors v) (activity_level p) of
        None \<Rightarrow> Inl KeyError
      | Some f \<Rightarrow> Inr (bmr p * f))"

definition calorie_goal :: "variant \<Rightarrow> UserProfile \<Rightarrow> exn + real" where
  "calorie_goal v p =
     (case tdee v p of
        Inl e \<Rightarrow> Inl e
      | Inr t \<Rightarrow> Inr (if goal p = ''Fat Loss'' then t * 0.7 else t))"





text \<open>The sidebar's default profile of \<^verbatim>\<open>ai_meal_pexels.py\<close>.\<close>

definition default_profile :: UserProfile where
  "default_profile =
     \<lparr>age = 20, gender = ''Male'', weight = 50, height = 170, body_fat_percent = 10,
      activity_level = ''Sedentary'', goal = ''Fat Loss''\<rparr>"

subsection \<open>Python strings\<close>

text \<open>
  A Python \<^verbatim>\<open>str\<close> is a list of code points. \<open>ustr\<close> embeds an ASCII literal; the en dash
  of the grocery pattern is the code point 8211. The whitespace table is the one of
  \<^verbatim>\<open>str.isspace\<close>, which \<^verbatim>\<open>str.strip\<close> and the pattern \<^verbatim>\<open>\s\<close> share, and the line
  boundaries are those of \<^verbatim>\<open>str.splitlines\<close>. The decimal digits of \<^verbatim>\<open>\d\<close> and the letters
  changed by \<^verbatim>\<open>str.lower\<close> are tabulated for ASCII only; the Unicode tables beyond it are
  not part of the scripts.
\<close>

type_synonym pystr = "nat list"

definition ustr :: "string \<Rightarrow> pystr" where
  "ustr s = map of_char s"

definition en_dash :: nat where
  "en_dash = 8211"

definition py_isspace :: "nat \<Rightarrow> bool" where
  "py_isspace c =
     ((9 \<le> c \<and> c \<le> 13) \<or> (28 \<le> c \<and> c \<le> 32) \<or> c = 133 \<or> c = 160 \<or> c = 5760
      \<or> (8192 \<le> c \<and> c \<le> 8202) \<or> c = 8232 \<or> c = 8233 \<or> c = 8239 \<or> c = 8287
      \<or> c = 12288)"

definition py_isdigit :: "nat \<Rightarrow> bool" where
  "py_isdigit c = (48 \<le> c \<and> c \<le> 57)"

definition line_boundary :: "nat \<Rightarrow> bool" where
  "line_boundary c =
     ((10 \<le> c \<and> c \<le> 13) \<or> (28 \<le> c \<and> c \<le> 30) \<or> c = 133 \<or> c = 8232 \<or> c = 8233)"

definition strip :: "pystr \<Rightarrow> pystr" where
  "strip s = rev (dropWhile py_isspace (rev (dropWhile py_isspace s)))"

definition lstrip_chars :: "pystr \<Rightarrow> pystr \<Rightarrow> pystr" where
  "lstrip_chars cs s = dropWhile (\<lambda>c. c \<in> set cs) s"

definition lower :: "pystr \<Rightarrow> pystr" where
  "lower s = map (\<lambda>c. if 65 \<le> c \<and> c \<le> 90 then c + 32 else c) s"

text \<open>\<^verbatim>\<open>s.splitlines()\<close>; \<open>cur\<close> is the line read so far. A final line break adds no line.\<close>

fun splitlines_from :: "pystr \<Rightarrow> pystr \<Rightarrow> pystr list" where
  "splitlines_from cur [] = (if cur = [] then [] else [cur])"
| "splitlines_from cur [c] = (if line_boundary c then [cur] else [cur @ [c]])"
| "splitlines_from cur (c # d # cs) =
     (if c = 13 \<and> d = 10 then cur # splitlines_from [] cs
      else if line_boundary c then cur # splitlines_from [] (d # cs)
      else splitlines_from (cur @ [c]) (d # cs))"

definition splitlines :: "pystr \<Rightarrow> pystr list" where
  "splitlines s = splitlines_from [] s"

text \<open>\<^verbatim>\<open>sep.join(xs)\<close>.\<close>

fun join :: "pystr \<Rightarrow> pystr list \<Rightarrow> pystr" where
  "join sep [] = []"
| "join sep [x] = x"
| "join sep (x # y # ys) = x @ sep @ join sep (y # ys)"

definition startswith :: "pystr \<Rightarrow> pystr \<Rightarrow> bool" where
  "startswith s p = (take (length p) s = p)"

text \<open>\<^verbatim>\<open>s.split(sep)[0]\<close> for a non-empty \<open>sep\<close>: the text before its first occurrence.\<close>

fun split_first :: "pystr \<Rightarrow> pystr \<Rightarrow> pystr" where
  "split_first sep [] = []"
| "split_first sep (x # xs) = (if startswith (x # xs) sep then [] else x # split_first sep xs)"

text \<open>\<^verbatim>\<open>sub in s\<close>.\<close>

fun contains :: "pystr \<Rightarrow> pystr \<Rightarrow> bool" where
  "contains sub [] = (sub = [])"
| "contains sub (x # xs) = (startswith (x # xs) sub \<or> contains sub xs)"

subsection \<open>The regular expressions of the scripts\<close>

text \<open>
  Every pattern of the scripts is a sequence of single characters or character classes,
  each taken once or repeated (\<^verbatim>\<open>?\<close>, \<^verbatim>\<open>*\<close>, \<^verbatim>\<open>+\<close>, \<^verbatim>\<open>*?\<close>, \<^verbatim>\<open>+?\<close>), some of them captured as
  a group, and of positive lookaheads over a fixed string. \<open>re_match\<close> is the backtracking
  matcher of Python's \<^verbatim>\<open>re\<close> on such a sequence: a greedy repetition tries the longest run
  first and gives characters back one at a time, a lazy one starts from the shortest, and
  the first way that lets the rest of the pattern match is the result.
\<close>

datatype quant = One | Opt | Star | Plus | LazyStar | LazyPlus

datatype re_item =
  Atom quant "nat \<Rightarrow> bool"
| Group quant "nat \<Rightarrow> bool"
| Look "(nat \<Rightarrow> bool) list"

fun look :: "(nat \<Rightarrow> bool) list \<Rightarrow> pystr \<Rightarrow> bool" where
  "look [] s = True"
| "look (c # cs) [] = False"
| "look (c # cs) (x # xs) = (c x \<and> look cs xs)"

text \<open>
  \<open>try_down k s lo n\<close> lets the repetition take \<open>n\<close> characters of \<open>s\<close>, then \<open>n - 1\<close>, down
  to \<open>lo\<close>, until the continuation \<open>k\<close> accepts what is left; \<open>try_up\<close> goes from \<open>n\<close> up to
  \<open>hi\<close>.
\<close>

fun try_down :: "(pystr \<Rightarrow> 'a option) \<Rightarrow> pystr \<Rightarrow> nat \<Rightarrow> nat \<Rightarrow> (nat \<times> 'a) option" where
  "try_down k s lo n =
     (case k (drop n s) of
        Some r \<Rightarrow> Some (n, r)
      | None \<Rightarrow> if n \<le> lo then None else try_down k s lo (n - 1))"

function try_up :: "(pystr \<Rightarrow> 'a option) \<Rightarrow> pystr \<Rightarrow> nat \<Rightarrow> nat \<Rightarrow> (nat \<times> 'a) option" where
  "try_up k s hi n =
     (case k (drop n s) of
        Some r \<Rightarrow> Some (n, r)
      | None \<Rightarrow> if hi \<le> n then None else try_up k s hi (Suc n))"
  by pat_completeness auto
termination
  by (relation "measure (\<lambda>(k, s, hi, n). hi - n)") auto

definition repeat ::
  "quant \<Rightarrow> (nat \<Rightarrow> bool) \<Rightarrow> (pystr \<Rightarrow> 'a option) \<Rightarrow> pystr \<Rightarrow> (nat \<times> 'a) option" where
  "repeat q c k s =
     (let n = length (takeWhile c s) in
      case q of
        One \<Rightarrow> if 1 \<le> n then try_down k s 1 1 else None
      | Opt \<Rightarrow> try_down k s 0 (min n 1)
      | Star \<Rightarrow> try_down k s 0 n
      | Plus \<Rightarrow> if 1 \<le> n then try_down k s 1 n else None
      | LazyStar \<Rightarrow> try_up k s n 0
      | LazyPlus \<Rightarrow> if 1 \<le> n then try_up k s n 1 else None)"

text \<open>\<^verbatim>\<open>re.match\<close>: the groups captured and the text left after the match, if there is one.\<close>

primrec re_match :: "re_item list \<Rightarrow> pystr \<Rightarrow> (pystr list \<times> pystr) option" where
  "re_match [] s = Some ([], s)"
| "re_match (it # its) s =
     (case it of
        Look cs \<Rightarrow> if look cs s then re_match its s else None
      | Atom q c \<Rightarrow> map_option snd (repeat q c (re_match its) s)
      | Group q c \<Rightarrow>
          map_option (\<lambda>(n, gs, rest). (take n s # gs, rest)) (repeat q c (re_match its) s))"

text \<open>
  \<^verbatim>\<open>re.findall\<close> and \<^verbatim>\<open>re.split\<close> (Python 3.7 and later) scan from left to right. After a
  match the scan goes on where the match ended; after an empty match (\<open>adv\<close>) the next
  match may not be an empty one at the same place. In the patterns of the scripts a match is
  empty only when the pattern is a lookahead, so the scan then moves on by one character.
  \<open>find_scan\<close> returns, for each match, the text matched and its groups; \<open>split_scan\<close> the
  segments between the matches, \<open>seg\<close> being the segment read so far (the patterns the
  scripts split on have no groups, which \<^verbatim>\<open>re.split\<close> would add to the result).
\<close>

function find_scan :: "re_item list \<Rightarrow> bool \<Rightarrow> pystr \<Rightarrow> (pystr \<times> pystr list) list" where
  "find_scan its adv s =
     (case re_match its s of
        Some (gs, rest) \<Rightarrow>
          if length rest < length s then
            (take (length s - length rest) s, gs) # find_scan its False rest
          else if \<not> adv then ([], gs) # find_scan its True s
          else (case s of [] \<Rightarrow> [] | x # xs \<Rightarrow> find_scan its False xs)
      | None \<Rightarrow> (case s of [] \<Rightarrow> [] | x # xs \<Rightarrow> find_scan its False xs))"
  by pat_completeness auto
termination
  by (relation "measure (\<lambda>(its, adv, s). 2 * length s + (if adv then 0 else 1))") auto

function split_scan :: "re_item list \<Rightarrow> bool \<Rightarrow> pystr \<Rightarrow> pystr \<Rightarrow> pystr list" where
  "split_scan its adv seg s =
     (case re_match its s of
        Some (gs, rest) \<Rightarrow>
          if length rest < length s then seg # split_scan its False [] rest
          else if \<not> adv then seg # split_scan its True [] s
          else (case s of [] \<Rightarrow> [seg] | x # xs \<Rightarrow> split_scan its False (seg @ [x]) xs)
      | None \<Rightarrow> (case s of [] \<Rightarrow> [seg] | x # xs \<Rightarrow> split_scan its False (seg @ [x]) xs))"
  by pat_completeness auto
termination
  by (relation "measure (\<lambda>(its, adv, seg, s). 2 * length s + (if adv then 0 else 1))") auto

definition re_findall :: "re_item list \<Rightarrow> pystr \<Rightarrow> (pystr \<times> pystr list) list" where
  "re_findall its s = find_scan its False s"

definition re_split :: "re_item list \<Rightarrow> pystr \<Rightarrow> pystr list" where
  "re_split its s = split_scan its False [] s"

text \<open>Character classes: a literal character, \<^verbatim>\<open>.\<close> (anything but a line feed), \<^verbatim>\<open>[\<close>en dash\<^verbatim>\<open>-]\<close>.\<close>

definition ch :: "char \<Rightarrow> nat \<Rightarrow> bool" where
  "ch c x = (x = of_char c)"

definition dot :: "nat \<Rightarrow> bool" where
  "dot x = (x \<noteq> 10)"

definition dash :: "nat \<Rightarrow> bool" where
  "dash x = (x = en_dash \<or> x = of_char CHR ''-'')"

text \<open>\<^verbatim>\<open>Day\s*\d\<close>, counted before the plan is shown.\<close>

definition day_token_re :: "re_item list" where
  "day_token_re =
     [Atom One (ch CHR ''D''), Atom One (ch CHR ''a''), Atom One (ch CHR ''y''),
      Atom Star py_isspace, Atom One py_isdigit]"

text \<open>\<^verbatim>\<open>(?=Day \d)\<close> of \<^verbatim>\<open>ai_meal_pexels.py\<close> and \<^verbatim>\<open>(?=Day \d)\s*\<close> of \<^verbatim>\<open>meal_hugging.py\<close>.\<close>

definition day_heading :: "(nat \<Rightarrow> bool) list" where
  "day_heading = [ch CHR ''D'', ch CHR ''a'', ch CHR ''y'', ch CHR '' '', py_isdigit]"

definition day_split_re :: "re_item list" where
  "day_split_re = [Look day_heading]"

definition day_split_hugging_re :: "re_item list" where
  "day_split_hugging_re = [Look day_heading, Atom Star py_isspace]"

text \<open>\<^verbatim>\<open>\*\*(.*?)\*\*:?\s*(.*)\<close>.\<close>

definition meal_re :: "re_item list" where
  "meal_re =
     [Atom One (ch CHR ''*''), Atom One (ch CHR ''*''), Group LazyStar dot,
      Atom One (ch CHR ''*''), Atom One (ch CHR ''*''), Atom Opt (ch CHR '':''),
      Atom Star py_isspace, Group Star dot]"

text \<open>\<^verbatim>\<open>##\s*\<close>.\<close>

definition category_re :: "re_item list" where
  "category_re = [Atom One (ch CHR ''#''), Atom One (ch CHR ''#''), Atom Star py_isspace]"

text \<open>\<^verbatim>\<open>-\s*(.+?)\s*[\<close>en dash\<^verbatim>\<open>-]\s*(.+)\<close>.\<close>

definition item_re :: "re_item list" where
  "item_re =
     [Atom One (ch CHR ''-''), Atom Star py_isspace, Group LazyPlus dot, Atom Star py_isspace,
      Atom One dash, Atom Star py_isspace, Group Plus dot]"

subsection \<open>Plan text parser\<close>

record MealEntry =
  meal_type :: pystr
  description :: pystr

record DayPlan =
  heading :: pystr
  meals :: "MealEntry list"

text \<open>The pairs \<^verbatim>\<open>re.findall\<close> returns for the two groups of the meal pattern.\<close>

fun meal_entry :: "pystr \<times> pystr list \<Rightarrow> MealEntry" where
  "meal_entry (m, [t, d]) = \<lparr>meal_type = t, description = d\<rparr>"
| "meal_entry (m, gs) = \<lparr>meal_type = [], description = []\<rparr>"

text \<open>
  The loop body of \<^verbatim>\<open>ai_meal_pexels.py\<close> on one segment: no record for a segment without
  lines (\<^verbatim>\<open>continue\<close>), else the first line stripped and the meals found in the rest.
\<close>

definition day_record :: "pystr \<Rightarrow> DayPlan option" where
  "day_record day_text =
     (case splitlines (strip day_text) of
        [] \<Rightarrow> None
      | l # ls \<Rightarrow>
          Some \<lparr>heading = strip l,
                meals = map meal_entry (re_findall meal_re (join (ustr [CHR 0x0A]) ls))\<rparr>)"

definition plan_segments :: "pystr \<Rightarrow> pystr list" where
  "plan_segments plan = re_split day_split_re (strip plan)"

definition plan_days :: "pystr \<Rightarrow> DayPlan list" where
  "plan_days plan = List.map_filter day_record (plan_segments plan)"

text \<open>
  \<^verbatim>\<open>meal_hugging.py\<close>: the heading is the first line as it is, and the lines shown are those
  that name a meal.
\<close>

definition is_meal_line :: "pystr \<Rightarrow> bool" where
  "is_meal_line line =
     list_ex (\<lambda>m. contains m (lower line))
       [ustr ''breakfast'', ustr ''lunch'', ustr ''dinner'', ustr ''snack'']"

definition hugging_day_record :: "pystr \<Rightarrow> (pystr \<times> pystr list) option" where
  "hugging_day_record day =
     (case splitlines (strip day) of
        [] \<Rightarrow> None
      | l # ls \<Rightarrow> Some (l, filter is_meal_line ls))"

definition hugging_days :: "pystr \<Rightarrow> (pystr \<times> pystr list) list" where
  "hugging_days full_plan =
     List.map_filter hugging_day_record (re_split day_split_hugging_re full_plan)"

subsection \<open>Grocery text parser\<close>

record GroceryItem =
  Category :: pystr
  Item :: pystr
  Quantity :: pystr

text \<open>
  One item line of \<^verbatim>\<open>parse_grocery_list\<close>: the name and the quantity. The pattern has two
  groups, so a match always carries \<^verbatim>\<open>group(1)\<close> and \<^verbatim>\<open>group(2)\<close>, the entries 0 and 1 of
  the list of groups.
\<close>

definition grocery_item :: "pystr \<Rightarrow> pystr \<times> pystr" where
  "grocery_item item =
     (case re_match item_re item of
        Some (gs, rest) \<Rightarrow> (strip (gs ! 0), strip (gs ! 1))
      | None \<Rightarrow> (lstrip_chars (ustr ''- '') (strip item), []))"

definition grocery_row :: "pystr \<Rightarrow> pystr \<Rightarrow> GroceryItem" where
  "grocery_row category item =
     \<lparr>Category = category, Item = fst (grocery_item item), Quantity = snd (grocery_item item)\<rparr>"

text \<open>The loop over the sections; \<^verbatim>\<open>lines[0]\<close> raises on an empty list.\<close>

fun parse_sections :: "pystr list \<Rightarrow> exn + GroceryItem list" where
  "parse_sections [] = Inr []"
| "parse_sections (section # sections) =
     (if strip section = [] then parse_sections sections
      else case splitlines (strip section) of
        [] \<Rightarrow> Inl IndexError
      | l # ls \<Rightarrow>
          (case parse_sections sections of
             Inl e \<Rightarrow> Inl e
           | Inr rows \<Rightarrow> Inr (map (grocery_row (strip l)) ls @ rows)))"

definition parse_grocery_list :: "pystr \<Rightarrow> exn + GroceryItem list" where
  "parse_grocery_list text = parse_sections (re_split category_re text)"

subsection \<open>Image lookup: the search strategy of \<^verbatim>\<open>ai_meal_pexels.py\<close>\<close>

definition simplify :: "pystr \<Rightarrow> pystr" where
  "simplify text = strip (split_first (ustr ''with'') (split_first (ustr '','') (lower text)))"

text \<open>
  The body of a reply as \<^verbatim>\<open>response.json()\<close> returns it, with Python's truth value and
  subscripts: \<^verbatim>\<open>x[key]\<close> for a string key and \<^verbatim>\<open>x[0]\<close>. An object keeps the last value of
  a repeated key.
\<close>

datatype json = JNull | JBool bool | JNum int | JStr pystr | JArr "json list"
  | JObj "(pystr \<times> json) list"

fun truthy :: "json \<Rightarrow> bool" where
  "truthy JNull = False"
| "truthy (JBool b) = b"
| "truthy (JNum n) = (n \<noteq> 0)"
| "truthy (JStr s) = (s \<noteq> [])"
| "truthy (JArr xs) = (xs \<noteq> [])"
| "truthy (JObj kvs) = (kvs \<noteq> [])"

fun get_key :: "json \<Rightarrow> pystr \<Rightarrow> exn + json" where
  "get_key (JObj kvs) k = (case map_of (rev kvs) k of None \<Rightarrow> Inl KeyError | Some v \<Rightarrow> Inr v)"
| "get_key x k = Inl TypeError"

fun get_first :: "json \<Rightarrow> exn + json" where
  "get_first (JArr xs) = (case xs of [] \<Rightarrow> Inl IndexError | x # r \<Rightarrow> Inr x)"
| "get_first (JStr s) = (case s of [] \<Rightarrow> Inl IndexError | c # r \<Rightarrow> Inr (JStr [c]))"
| "get_first (JObj kvs) = Inl KeyError"
| "get_first x = Inl TypeError"

text \<open>
  The image search service: \<^verbatim>\<open>requests.get\<close> raises, or returns a status code and a body
  (\<open>None\<close> when the body is no JSON, so that \<^verbatim>\<open>response.json()\<close> raises). \<open>respond env n q\<close>
  is what the service does on the request number \<open>n\<close>, made for the query \<open>q\<close>; \<open>api_key\<close>
  is \<^verbatim>\<open>os.getenv("PEXELS_API_KEY")\<close>.
\<close>

datatype reply = Raises exn | Response int "json option"

record pexels_env =
  api_key :: "pystr option"
  respond :: "nat \<Rightarrow> pystr \<Rightarrow> reply"

text \<open>What \<^verbatim>\<open>call_pexels_api\<close> makes of the reply: an exception, \<open>None\<close> or a value.\<close>

definition pexels_result :: "reply \<Rightarrow> exn + json option" where
  "pexels_result r =
     (case r of
        Raises e \<Rightarrow> Inl e
      | Response status_code body \<Rightarrow>
          if status_code = 200 then
            (case body of
               None \<Rightarrow> Inl JSONDecodeError
             | Some data \<Rightarrow>
                 (case get_key data (ustr ''photos'') of
                    Inl e \<Rightarrow> Inl e
                  | Inr photos \<Rightarrow>
                      if truthy photos then
                        (case get_first photos of
                           Inl e \<Rightarrow> Inl e
                         | Inr photo \<Rightarrow>
                             (case get_key photo (ustr ''src'') of
                                Inl e \<Rightarrow> Inl e
                              | Inr src \<Rightarrow>
                                  (case get_key src (ustr ''medium'') of
                                     Inl e \<Rightarrow> Inl e
                                   | Inr medium \<Rightarrow> Inr (Some medium))))
                      else Inr None))
          else Inr None)"

text \<open>
  \<open>calls\<close> is the list of the queries sent so far; the functions return it extended. Without
  a key no request is made.
\<close>

definition call_pexels_api ::
  "pexels_env \<Rightarrow> pystr list \<Rightarrow> pystr \<Rightarrow> pystr list \<times> (exn + json option)" where
  "call_pexels_api env calls query =
     (if api_key env = None \<or> api_key env = Some [] then (calls, Inr None)
      else (calls @ [query], pexels_result (respond env (length calls) query)))"

fun truthy_result :: "json option \<Rightarrow> bool" where
  "truthy_result None = False"
| "truthy_result (Some v) = truthy v"

fun search_loop ::
  "pexels_env \<Rightarrow> pystr list \<Rightarrow> pystr list \<Rightarrow> pystr list \<times> (exn + json option)" where
  "search_loop env calls [] = (calls, Inr None)"
| "search_loop env calls (q # qs) =
     (case call_pexels_api env calls q of
        (calls', Inl e) \<Rightarrow> (calls', Inl e)
      | (calls', Inr result) \<Rightarrow>
          if truthy_result result then (calls', Inr result) else search_loop env calls' qs)"

definition fallback_queries :: "pystr \<Rightarrow> pystr list" where
  "fallback_queries meal_name = [meal_name, simplify meal_name, ustr ''healthy food'']"

definition search_pexels ::
  "pexels_env \<Rightarrow> pystr list \<Rightarrow> pystr \<Rightarrow> pystr list \<times> (exn + json option)" where
  "search_pexels env calls meal_name = search_loop env calls (fallback_queries meal_name)"

definition get_meal_image ::
  "pexels_env \<Rightarrow> pystr list \<Rightarrow> pystr \<Rightarrow> pystr list \<times> (exn + json option)" where
  "get_meal_image env calls meal_name = search_pexels env calls meal_name"

subsection \<open>Image lookup: the generation strategy of \<^verbatim>\<open>meal_hugging.py\<close>\<close>

text \<open>
  \<^verbatim>\<open>requests.post\<close> raises or returns a status code and the bytes of the body;
  \<open>image_open\<close> stands for \<^verbatim>\<open>Image.open(BytesIO(...))\<close>, which may raise. The inner
  \<open>case\<close> is the body of the \<^verbatim>\<open>try\<close>, the outer one the \<^verbatim>\<open>except Exception\<close> and the final
  \<^verbatim>\<open>return None\<close>. The cache of \<^verbatim>\<open>st.cache_data\<close> only replays results and is left out.
\<close>

datatype hf_reply = HfRaises exn | HfResponse int "nat list"

definition generate_meal_image ::
  "(nat list \<Rightarrow> exn + 'img) \<Rightarrow> (pystr \<Rightarrow> hf_reply) \<Rightarrow> pystr \<Rightarrow> exn + 'img option" where
  "generate_meal_image image_open post prompt =
     (case (case post prompt of
              HfRaises e \<Rightarrow> Inl e
            | HfResponse status_code content \<Rightarrow>
                if status_code = 200 then
                  (case image_open content of Inl e \<Rightarrow> Inl e | Inr img \<Rightarrow> Inr (Some img))
                else Inr None)
      of Inl e \<Rightarrow> Inr None
       | Inr r \<Rightarrow> Inr r)"

subsection \<open>Showing the plan in \<^verbatim>\<open>ai_meal_pexels.py\<close>\<close>

text \<open>
  What the script puts on the page, in order. An exception of the image lookup leaves the
  loops; the handler around the whole flow then shows it with \<^verbatim>\<open>st.error\<close>.
\<close>

datatype ui = UiWarning | UiSubheader | UiExpander pystr | UiImage json | UiNoImage
  | UiMeal pystr pystr | UiError exn

fun render_meals ::
  "pexels_env \<Rightarrow> pystr list \<Rightarrow> MealEntry list \<Rightarrow> pystr list \<times> ui list \<times> exn option" where
  "render_meals env calls [] = (calls, [], None)"
| "render_meals env calls (m # ms) =
     (if description m = [] then render_meals env calls ms
      else case get_meal_image env calls (description m) of
        (calls', Inl e) \<Rightarrow> (calls', [], Some e)
      | (calls', Inr image_url) \<Rightarrow>
          (case render_meals env calls' ms of
             (calls'', out, err) \<Rightarrow>
               (calls'',
                (case image_url of
                   None \<Rightarrow> UiNoImage
                 | Some url \<Rightarrow> if truthy url then UiImage url else UiNoImage)
                # UiMeal (meal_type m) (description m) # out,
                err)))"

fun render_days ::
  "pexels_env \<Rightarrow> pystr list \<Rightarrow> pystr list \<Rightarrow> pystr list \<times> ui list \<times> exn option" where
  "render_days env calls [] = (calls, [], None)"
| "render_days env calls (day_text # days) =
     (case day_record day_text of
        None \<Rightarrow> render_days env calls days
      | Some d \<Rightarrow>
          (case render_meals env calls (meals d) of
             (calls', out, Some e) \<Rightarrow> (calls', UiExpander (heading d) # out, Some e)
           | (calls', out, None) \<Rightarrow>
               (case render_days env calls' days of
                  (calls'', out', err) \<Rightarrow>
                    (calls'', UiExpander (heading d) # out @ out', err))))"

text \<open>From the combined plan text to the end of the plan's display.\<close>

definition display_plan :: "pexels_env \<Rightarrow> pystr \<Rightarrow> ui list" where
  "display_plan env plan =
     (let days = re_findall day_token_re plan;
          warning = (if length days < 7 then [UiWarning] else [])
      in case render_days env [] (re_split day_split_re (strip plan)) of
           (calls, out, err) \<Rightarrow>
             warning @ [UiSubheader] @ out @ (case err of None \<Rightarrow> [] | Some e \<Rightarrow> [UiError e]))"

subsection \<open>The inputs of the specification's examples\<close>

definition plan_example :: pystr where
  "plan_example =
     ustr ''Day 1'' @ [10] @ ustr ''**Breakfast**: Oats'' @ [10] @ ustr ''**Lunch**: Salad''
     @ [10] @ ustr ''Day 2'' @ [10] @ ustr ''**Breakfast**: Eggs''"


definition grocery_example :: pystr where
  "grocery_example =
     ustr ''## Vegetables'' @ [10] @ ustr ''- Carrot '' @ [en_dash] @ ustr '' 200g'' @ [10]
     @ ustr ''## Fruits'' @ [10] @ ustr ''- Apple''"


text \<open>An environment with a key whose service is unreachable, and one without a key.\<close>

definition env_unreachable :: pexels_env where
  "env_unreachable =
     \<lparr>api_key = Some (ustr ''key''), respond = (\<lambda>n q. Raises RequestException)\<rparr>"




subsection \<open>Notions used in the statements\<close>



text \<open>
  The numbers of characters a repetition may take, and the shape of an item line that the
  grocery pattern describes: the bullet, a name \<open>g1\<close>, a dash and a quantity \<open>g2\<close>, with
  optional whitespace around the name and after the dash, and any text left over.
\<close>

fun counts :: "quant \<Rightarrow> nat \<Rightarrow> bool" where
  "counts One n = (n = 1)"
| "counts Opt n = (n \<le> 1)"
| "counts Star n = True"
| "counts Plus n = (1 \<le> n)"
| "counts LazyStar n = True"
| "counts LazyPlus n = (1 \<le> n)"

definition dash_pattern :: "pystr \<Rightarrow> pystr \<Rightarrow> pystr \<Rightarrow> bool" where
  "dash_pattern item g1 g2 =
     (\<exists>ws1 ws2 d ws3 rest.
        item = [of_char CHR ''-''] @ ws1 @ g1 @ ws2 @ [d] @ ws3 @ g2 @ rest
        \<and> (\<forall>c \<in> set (ws1 @ ws2 @ ws3). py_isspace c) \<and> dash d
        \<and> g1 \<noteq> [] \<and> g2 \<noteq> [] \<and> (\<forall>c \<in> set (g1 @ g2). dot c))"

subsection \<open>Properties of the calculator\<close>




lemma activity_factor_valid:
  assumes "valid_profile v p"
  shows "map_of (activity_factors v) (activity_level p) =
     Some (if activity_level p = ''Sedentary'' then 1.2
           else if activity_level p = ''Light'' then 1.375
           else if activity_level p = ''Moderate'' then 1.55
           else if activity_level p = ''Active'' then 1.725 else 1.9)"
  using assms by (cases v) (auto simp add: valid_profile_def)

lemma valid_default_profile: "valid_profile Ai_Meal_Pexels default_profile"
  by (simp add: valid_profile_def default_profile_def gender_options_def goal_options_def)

text \<open>
  Claim C1, as amended. The basal metabolic rate is
  \<open>10 * weight + 6.25 * height - 5 * age\<close> plus \<open>5\<close> for Male, minus \<open>161\<close> for Female and
  with no offset for any other selection; being a function of the profile it gives the same
  result for the same profile. For a Male profile of age 20, weight 50 and height 170 the
  value is 1467.5 (the claim's 1067.5 is an arithmetic slip: 500 + 1062.5 - 100 + 5).
\<close>

theorem bmr_mifflin_st_jeor:
  "bmr p = 10 * weight p + 6.25 * height p - 5 * of_int (age p)
            + (if gender p = ''Male'' then 5 else if gender p = ''Female'' then - 161 else 0)
   \<and> (gender p = ''Male'' \<and> age p = 20 \<and> weight p = 50 \<and> height p = 170
        \<longrightarrow> bmr p = 1467.5)"
  by (simp add: bmr_def)

text \<open>The sidebar's default profile is such a profile.\<close>

theorem bmr_mifflin_st_jeor_witness:
  "gender default_profile = ''Male'' \<and> age default_profile = 20 \<and> weight default_profile = 50
   \<and> height default_profile = 170 \<and> bmr default_profile = 1467.5"
  using bmr_mifflin_st_jeor [of default_profile] by (simp add: default_profile_def)

text \<open>Claim C1 as stated fails there: the rate is not 1067.5.\<close>

theorem bmr_default_not_1067_5:
  "bmr \<lparr>age = 20, gender = ''Male'', weight = 50, height = 170, body_fat_percent = 10,
        activity_level = ''Sedentary'', goal = ''Fat Loss''\<rparr> \<noteq> 1067.5"
  by (simp add: bmr_def)

text \<open>
  Claim C2. For a valid profile of any variant the lookup in \<open>activity_factors\<close> succeeds,
  the factor is the tabulated one (Sedentary 1.2, Light 1.375, Moderate 1.55, Active 1.725,
  Extra\_Active 1.9) and lies between 1.2 and 1.9, \<open>tdee\<close> is \<open>bmr\<close> times the factor, and
  \<open>calorie_goal\<close> is \<open>tdee * 0.7\<close> for Fat Loss and \<open>tdee\<close> for the other goals.
\<close>

theorem tdee_calorie_goal_valid:
  assumes "valid_profile v p"
  shows "\<exists>f. map_of (activity_factors v) (activity_level p) = Some f
           \<and> f = (if activity_level p = ''Sedentary'' then 1.2
                  else if activity_level p = ''Light'' then 1.375
                  else if activity_level p = ''Moderate'' then 1.55
                  else if activity_level p = ''Active'' then 1.725 else 1.9)
           \<and> 1.2 \<le> f \<and> f \<le> 1.9
           \<and> tdee v p = Inr (bmr p * f)
           \<and> calorie_goal v p =
               Inr (if goal p = ''Fat Loss'' then bmr p * f * 0.7 else bmr p * f)"
  using activity_factor_valid [OF assms]
  by (simp add: tdee_def calorie_goal_def)

text \<open>The default profile: Sedentary and Fat Loss, so 1467.5 * 1.2 = 1761 and 1761 * 0.7.\<close>

theorem tdee_calorie_goal_valid_witness:
  "valid_profile Ai_Meal_Pexels default_profile
   \<and> tdee Ai_Meal_Pexels default_profile = Inr 1761
   \<and> calorie_goal Ai_Meal_Pexels default_profile = Inr 1232.7"
proof -
  have v: "valid_profile Ai_Meal_Pexels default_profile"
    by (rule valid_default_profile)
  from tdee_calorie_goal_valid [OF v] obtain f where
    f: "f = (if activity_level default_profile = ''Sedentary'' then 1.2
             else if activity_level default_profile = ''Light'' then 1.375
             else if activity_level default_profile = ''Moderate'' then 1.55
             else if activity_level default_profile = ''Active'' then 1.725 else 1.9)"
    and t: "tdee Ai_Meal_Pexels default_profile = Inr (bmr default_profile * f)"
    and c: "calorie_goal Ai_Meal_Pexels default_profile =
       Inr (if goal default_profile = ''Fat Loss'' then bmr default_profile * f * 0.7
            else bmr default_profile * f)"
    by blast
  have f': "f = 1.2" using f by (simp add: default_profile_def)
  have b: "bmr default_profile = 1467.5" by (simp add: bmr_def default_profile_def)
  have g: "goal default_profile = ''Fat Loss''" by (simp add: default_profile_def)
  show ?thesis using v t c unfolding f' b g by simp
qed



subsection \<open>Properties of the string operations\<close>

lemma line_boundary_isspace: "line_boundary c \<Longrightarrow> py_isspace c"
  by (auto simp add: line_boundary_def py_isspace_def)

lemma strip_Cons_nonspace:
  assumes "\<not> py_isspace c"
  shows "\<exists>t. strip (c # l) = c # t"
proof -
  have "dropWhile py_isspace (rev l @ [c]) = dropWhile py_isspace (rev l) @ [c]"
    using assms by (simp add: dropWhile_append)
  then show ?thesis using assms by (simp add: strip_def)
qed

lemma strip_hd_nonspace:
  assumes "strip s = c # t"
  shows "\<not> py_isspace c"
proof -
  define u where "u = dropWhile py_isspace s"
  have u: "strip s = rev (dropWhile py_isspace (rev u))" by (simp add: strip_def u_def)
  show ?thesis
  proof (cases u)
    case Nil
    with u assms show ?thesis by simp
  next
    case (Cons x xs)
    then have x: "\<not> py_isspace x" using hd_dropWhile [of py_isspace s] by (simp add: u_def)
    have "dropWhile py_isspace (rev xs @ [x]) = dropWhile py_isspace (rev xs) @ [x]"
      using x by (simp add: dropWhile_append)
    with u Cons assms have "c = x" by simp
    with x show ?thesis by simp
  qed
qed

lemma splitlines_from_cur:
  "cur \<noteq> [] \<Longrightarrow> \<exists>l ls. splitlines_from cur s = (cur @ l) # ls"
  by (induction cur s rule: splitlines_from.induct) auto

lemma splitlines_Cons:
  assumes "\<not> line_boundary c"
  shows "\<exists>l ls. splitlines (c # cs) = (c # l) # ls"
proof (cases cs)
  case Nil
  with assms show ?thesis by (simp add: splitlines_def)
next
  case (Cons d ds)
  have "c \<noteq> 13" using assms by (auto simp add: line_boundary_def)
  then have "splitlines (c # cs) = splitlines_from [c] cs"
    using assms Cons by (simp add: splitlines_def)
  with splitlines_from_cur [of "[c]" cs] show ?thesis by auto
qed

lemma splitlines_strip:
  assumes "strip s \<noteq> []"
  shows "\<exists>c l ls. splitlines (strip s) = (c # l) # ls \<and> \<not> py_isspace c"
proof -
  from assms obtain c t where ct: "strip s = c # t" by (cases "strip s") auto
  then have c: "\<not> py_isspace c" by (rule strip_hd_nonspace)
  then have "\<not> line_boundary c" using line_boundary_isspace by blast
  from splitlines_Cons [OF this, of t] ct c show ?thesis by auto
qed

lemma day_record_None: "day_record seg = None \<longleftrightarrow> strip seg = []"
proof (cases "strip seg = []")
  case True
  then show ?thesis by (simp add: day_record_def splitlines_def)
next
  case False
  from splitlines_strip [OF this] show ?thesis using False by (auto simp add: day_record_def)
qed

lemma day_record_heading:
  assumes "day_record seg = Some d"
  shows "heading d \<noteq> []"
proof -
  from assms have "strip seg \<noteq> []" using day_record_None [of seg] by auto
  from splitlines_strip [OF this] obtain c l ls where
    s: "splitlines (strip seg) = (c # l) # ls" and c: "\<not> py_isspace c" by blast
  from strip_Cons_nonspace [OF c, of l] obtain t where "strip (c # l) = c # t" by blast
  with assms s show ?thesis by (auto simp add: day_record_def)
qed

lemma hugging_day_record_None: "hugging_day_record seg = None \<longleftrightarrow> strip seg = []"
proof (cases "strip seg = []")
  case True
  then show ?thesis by (simp add: hugging_day_record_def splitlines_def)
next
  case False
  from splitlines_strip [OF this] show ?thesis using False by (auto simp add: hugging_day_record_def)
qed

lemma hugging_day_record_heading:
  assumes "hugging_day_record seg = Some d"
  shows "fst d \<noteq> []"
proof -
  from assms have "strip seg \<noteq> []" using hugging_day_record_None [of seg] by auto
  from splitlines_strip [OF this] obtain c l ls where
    s: "splitlines (strip seg) = (c # l) # ls" by blast
  with assms show ?thesis by (auto simp add: hugging_day_record_def)
qed

lemma map_filter_set: "d \<in> set (List.map_filter f xs) \<Longrightarrow> \<exists>x \<in> set xs. f x = Some d"
  by (auto simp add: List.map_filter_def)


subsection \<open>Properties of the matcher\<close>

declare try_down.simps [simp del] try_up.simps [simp del]

lemma try_down_sound:
  "try_down k s lo n = Some (j, r) \<Longrightarrow> j \<le> n \<and> k (drop j s) = Some r \<and> (lo \<le> n \<longrightarrow> lo \<le> j)"
proof (induction k s lo n rule: try_down.induct)
  case (1 k s lo n)
  show ?case
  proof (cases "k (drop n s)")
    case (Some r')
    with "1.prems" show ?thesis by (simp add: try_down.simps [of k s lo n])
  next
    case None
    with "1.prems" have nlo: "\<not> n \<le> lo" and rec: "try_down k s lo (n - 1) = Some (j, r)"
      by (auto simp add: try_down.simps [of k s lo n] split: if_splits)
    from "1.IH" [OF None nlo rec] nlo show ?thesis by auto
  qed
qed

lemma try_down_complete:
  "lo \<le> j \<Longrightarrow> j \<le> n \<Longrightarrow> k (drop j s) \<noteq> None \<Longrightarrow> try_down k s lo n \<noteq> None"
proof (induction k s lo n rule: try_down.induct)
  case (1 k s lo n)
  show ?case
  proof (cases "k (drop n s)")
    case (Some r')
    then show ?thesis by (simp add: try_down.simps [of k s lo n])
  next
    case None
    with "1.prems" have jn: "j \<noteq> n" by auto
    with "1.prems" have nlo: "\<not> n \<le> lo" and j: "j \<le> n - 1" by auto
    from "1.IH" [OF None nlo "1.prems"(1) j "1.prems"(3)] None nlo
    show ?thesis by (simp add: try_down.simps [of k s lo n])
  qed
qed


lemma try_up_sound:
  "try_up k s hi n = Some (j, r) \<Longrightarrow> n \<le> j \<and> k (drop j s) = Some r \<and> (n \<le> hi \<longrightarrow> j \<le> hi)"
proof (induction k s hi n rule: try_up.induct)
  case (1 k s hi n)
  show ?case
  proof (cases "k (drop n s)")
    case (Some r')
    with "1.prems" show ?thesis by (simp add: try_up.simps [of k s hi n])
  next
    case None
    with "1.prems" have nhi: "\<not> hi \<le> n" and rec: "try_up k s hi (Suc n) = Some (j, r)"
      by (auto simp add: try_up.simps [of k s hi n] split: if_splits)
    from "1.IH" [OF None nhi rec] nhi show ?thesis by auto
  qed
qed

lemma try_up_complete:
  "n \<le> j \<Longrightarrow> j \<le> hi \<Longrightarrow> k (drop j s) \<noteq> None \<Longrightarrow> try_up k s hi n \<noteq> None"
proof (induction k s hi n rule: try_up.induct)
  case (1 k s hi n)
  show ?case
  proof (cases "k (drop n s)")
    case (Some r')
    then show ?thesis by (simp add: try_up.simps [of k s hi n])
  next
    case None
    with "1.prems" have jn: "j \<noteq> n" by auto
    with "1.prems" have nhi: "\<not> hi \<le> n" and j: "Suc n \<le> j" by auto
    from "1.IH" [OF None nhi j "1.prems"(2) "1.prems"(3)] None nhi
    show ?thesis by (simp add: try_up.simps [of k s hi n])
  qed
qed


lemma takeWhile_length_ge:
  "\<forall>x \<in> set a. c x \<Longrightarrow> length a \<le> length (takeWhile c (a @ b))"
  by (induction a) auto

lemma takeWhile_take_all: "n \<le> length (takeWhile c s) \<Longrightarrow> \<forall>x \<in> set (take n s). c x"
proof (induction s arbitrary: n)
  case Nil
  then show ?case by simp
next
  case (Cons x xs)
  then show ?case by (cases n) (auto split: if_splits)
qed

lemma repeat_sound:
  assumes "repeat q c k s = Some (n, r)"
  shows "counts q n \<and> n \<le> length (takeWhile c s) \<and> k (drop n s) = Some r"
proof (cases q)
  case One
  with assms show ?thesis
    using try_down_sound [of k s 1 1 n r] by (auto simp add: repeat_def Let_def split: if_splits)
next
  case Opt
  with assms show ?thesis
    using try_down_sound [of k s 0 "min (length (takeWhile c s)) 1" n r]
    by (auto simp add: repeat_def Let_def)
next
  case Star
  with assms show ?thesis
    using try_down_sound [of k s 0 "length (takeWhile c s)" n r]
    by (auto simp add: repeat_def Let_def)
next
  case Plus
  with assms show ?thesis
    using try_down_sound [of k s 1 "length (takeWhile c s)" n r]
    by (auto simp add: repeat_def Let_def split: if_splits)
next
  case LazyStar
  with assms show ?thesis
    using try_up_sound [of k s "length (takeWhile c s)" 0 n r]
    by (auto simp add: repeat_def Let_def)
next
  case LazyPlus
  with assms show ?thesis
    using try_up_sound [of k s "length (takeWhile c s)" 1 n r]
    by (auto simp add: repeat_def Let_def split: if_splits)
qed

lemma repeat_complete:
  assumes "counts q n" and "n \<le> length (takeWhile c s)" and "k (drop n s) \<noteq> None"
  shows "repeat q c k s \<noteq> None"
proof (cases q)
  case One
  with assms show ?thesis
    using try_down_complete [of 1 n 1 k s] by (auto simp add: repeat_def Let_def)
next
  case Opt
  with assms show ?thesis
    using try_down_complete [of 0 n "min (length (takeWhile c s)) 1" k s]
    by (auto simp add: repeat_def Let_def)
next
  case Star
  with assms show ?thesis
    using try_down_complete [of 0 n "length (takeWhile c s)" k s]
    by (auto simp add: repeat_def Let_def)
next
  case Plus
  with assms show ?thesis
    using try_down_complete [of 1 n "length (takeWhile c s)" k s]
    by (auto simp add: repeat_def Let_def)
next
  case LazyStar
  with assms show ?thesis
    using try_up_complete [of 0 n "length (takeWhile c s)" k s]
    by (auto simp add: repeat_def Let_def)
next
  case LazyPlus
  with assms show ?thesis
    using try_up_complete [of 1 n "length (takeWhile c s)" k s]
    by (auto simp add: repeat_def Let_def)
qed

lemma repeat_split:
  assumes "repeat q c k s = Some (n, r)"
  shows "\<exists>a b. s = a @ b \<and> length a = n \<and> counts q n \<and> (\<forall>x \<in> set a. c x) \<and> k b = Some r"
proof -
  from repeat_sound [OF assms] have c: "counts q n" and n: "n \<le> length (takeWhile c s)"
    and k: "k (drop n s) = Some r" by auto
  from n have "n \<le> length s" using length_takeWhile_le [of c s] by linarith
  then have "length (take n s) = n" by simp
  moreover have "s = take n s @ drop n s" by simp
  ultimately show ?thesis using c k takeWhile_take_all [OF n] by blast
qed

lemma re_match_Atom:
  assumes "re_match (Atom q c # its) s = Some (gs, rest)"
  shows "\<exists>a b. s = a @ b \<and> counts q (length a) \<and> (\<forall>x \<in> set a. c x)
           \<and> re_match its b = Some (gs, rest)"
proof -
  from assms obtain n where "repeat q c (re_match its) s = Some (n, gs, rest)" by auto
  from repeat_split [OF this] show ?thesis by blast
qed

lemma re_match_Group:
  assumes "re_match (Group q c # its) s = Some (gs, rest)"
  shows "\<exists>a b gs'. s = a @ b \<and> counts q (length a) \<and> (\<forall>x \<in> set a. c x) \<and> gs = a # gs'
           \<and> re_match its b = Some (gs', rest)"
proof -
  from assms obtain n gs' where r: "repeat q c (re_match its) s = Some (n, gs', rest)"
    and gs: "gs = take n s # gs'" by auto
  from repeat_split [OF r] gs show ?thesis by auto
qed

lemma re_match_Atom_complete:
  assumes "counts q (length a)" and "\<forall>x \<in> set a. c x" and "re_match its b \<noteq> None"
  shows "re_match (Atom q c # its) (a @ b) \<noteq> None"
  using repeat_complete [of q "length a" c "a @ b" "re_match its"] assms
    takeWhile_length_ge [of a c b] by simp

lemma re_match_Group_complete:
  assumes "counts q (length a)" and "\<forall>x \<in> set a. c x" and "re_match its b \<noteq> None"
  shows "re_match (Group q c # its) (a @ b) \<noteq> None"
  using repeat_complete [of q "length a" c "a @ b" "re_match its"] assms
    takeWhile_length_ge [of a c b] by simp

subsection \<open>Properties of the grocery item pattern\<close>

lemma counts_One_singleton:
  assumes "counts One (length a)" and "\<forall>x \<in> set a. c x"
  shows "\<exists>x. a = [x] \<and> c x"
proof -
  from assms(1) have "length a = 1" by simp
  then obtain x where "a = [x]" by (cases a) auto
  with assms(2) show ?thesis by simp
qed

lemma item_re_sound:
  assumes "re_match item_re item = Some (gs, rest)"
  shows "\<exists>g1 g2. gs = [g1, g2] \<and> dash_pattern item g1 g2"
proof -
  have m0: "re_match (Atom One (ch CHR ''-'') # [Atom Star py_isspace, Group LazyPlus dot,
      Atom Star py_isspace, Atom One dash, Atom Star py_isspace, Group Plus dot]) item
      = Some (gs, rest)"
    using assms by (simp only: item_re_def)
  from re_match_Atom [OF m0]
  obtain a1 b1 where 1: "item = a1 @ b1" "counts One (length a1)" "\<forall>x \<in> set a1. ch CHR ''-'' x"
    and m1: "re_match [Atom Star py_isspace, Group LazyPlus dot, Atom Star py_isspace,
      Atom One dash, Atom Star py_isspace, Group Plus dot] b1 = Some (gs, rest)" by blast
  from re_match_Atom [OF m1]
  obtain a2 b2 where 2: "b1 = a2 @ b2" "\<forall>x \<in> set a2. py_isspace x"
    and m2: "re_match [Group LazyPlus dot, Atom Star py_isspace,
      Atom One dash, Atom Star py_isspace, Group Plus dot] b2 = Some (gs, rest)" by blast
  from re_match_Group [OF m2]
  obtain a3 b3 gs3 where 3: "b2 = a3 @ b3" "counts LazyPlus (length a3)" "\<forall>x \<in> set a3. dot x"
      "gs = a3 # gs3"
    and m3: "re_match [Atom Star py_isspace,
      Atom One dash, Atom Star py_isspace, Group Plus dot] b3 = Some (gs3, rest)" by blast
  from re_match_Atom [OF m3]
  obtain a4 b4 where 4: "b3 = a4 @ b4" "\<forall>x \<in> set a4. py_isspace x"
    and m4: "re_match [Atom One dash, Atom Star py_isspace, Group Plus dot] b4 = Some (gs3, rest)"
    by blast
  from re_match_Atom [OF m4]
  obtain a5 b5 where 5: "b4 = a5 @ b5" "counts One (length a5)" "\<forall>x \<in> set a5. dash x"
    and m5: "re_match [Atom Star py_isspace, Group Plus dot] b5 = Some (gs3, rest)" by blast
  from re_match_Atom [OF m5]
  obtain a6 b6 where 6: "b5 = a6 @ b6" "\<forall>x \<in> set a6. py_isspace x"
    and m6: "re_match [Group Plus dot] b6 = Some (gs3, rest)" by blast
  from re_match_Group [OF m6]
  obtain a7 b7 gs7 where 7: "b6 = a7 @ b7" "counts Plus (length a7)" "\<forall>x \<in> set a7. dot x"
      "gs3 = a7 # gs7"
    and m7: "re_match [] b7 = Some (gs7, rest)" by blast
  from m7 have 8: "gs7 = []" "rest = b7" by auto
  from counts_One_singleton [OF 1(2,3)] have a1: "a1 = [of_char CHR ''-'']"
    by (auto simp add: ch_def)
  from counts_One_singleton [OF 5(2,3)] obtain d where a5: "a5 = [d]" "dash d" by blast
  have "item = [of_char CHR ''-''] @ a2 @ a3 @ a4 @ [d] @ a6 @ a7 @ rest"
    using 1(1) 2(1) 3(1) 4(1) 5(1) 6(1) 7(1) 8(2) a1 a5(1) by simp
  moreover have "a3 \<noteq> []" "a7 \<noteq> []" using 3(2) 7(2) by auto
  moreover have "gs = [a3, a7]" using 3(4) 7(4) 8(1) by simp
  ultimately have "gs = [a3, a7] \<and> dash_pattern item a3 a7"
    unfolding dash_pattern_def using 2(2) 3(3) 4(2) 6(2) 7(3) a5(2)
    by (intro conjI exI [of _ a2] exI [of _ a4] exI [of _ d] exI [of _ a6] exI [of _ rest]) auto
  then show ?thesis by blast
qed

lemma item_re_complete:
  assumes "dash_pattern item g1 g2"
  shows "re_match item_re item \<noteq> None"
proof -
  from assms obtain ws1 ws2 d ws3 rest where
    item: "item = [of_char CHR ''-''] @ ws1 @ g1 @ ws2 @ [d] @ ws3 @ g2 @ rest"
    and ws: "\<forall>c \<in> set ws1. py_isspace c" "\<forall>c \<in> set ws2. py_isspace c"
       "\<forall>c \<in> set ws3. py_isspace c"
    and d: "dash d" and g: "g1 \<noteq> []" "g2 \<noteq> []"
       "\<forall>c \<in> set g1. dot c" "\<forall>c \<in> set g2. dot c"
    unfolding dash_pattern_def by auto
  have 7: "re_match [Group Plus dot] (g2 @ rest) \<noteq> None"
    by (rule re_match_Group_complete) (use g in \<open>auto simp add: Suc_le_eq\<close>)
  have 6: "re_match [Atom Star py_isspace, Group Plus dot] (ws3 @ g2 @ rest) \<noteq> None"
    by (rule re_match_Atom_complete) (use ws 7 in auto)
  have 5: "re_match [Atom One dash, Atom Star py_isspace, Group Plus dot]
      ([d] @ ws3 @ g2 @ rest) \<noteq> None"
    by (rule re_match_Atom_complete) (use d 6 in auto)
  have 4: "re_match [Atom Star py_isspace, Atom One dash, Atom Star py_isspace, Group Plus dot]
      (ws2 @ [d] @ ws3 @ g2 @ rest) \<noteq> None"
    by (rule re_match_Atom_complete) (use ws 5 in auto)
  have 3: "re_match [Group LazyPlus dot, Atom Star py_isspace, Atom One dash,
      Atom Star py_isspace, Group Plus dot] (g1 @ ws2 @ [d] @ ws3 @ g2 @ rest) \<noteq> None"
    by (rule re_match_Group_complete) (use g 4 in \<open>auto simp add: Suc_le_eq\<close>)
  have 2: "re_match [Atom Star py_isspace, Group LazyPlus dot, Atom Star py_isspace, Atom One dash,
      Atom Star py_isspace, Group Plus dot] (ws1 @ g1 @ ws2 @ [d] @ ws3 @ g2 @ rest) \<noteq> None"
    by (rule re_match_Atom_complete) (use ws 3 in auto)
  have "re_match item_re ([of_char CHR ''-''] @ ws1 @ g1 @ ws2 @ [d] @ ws3 @ g2 @ rest) \<noteq> None"
    unfolding item_re_def
    by (rule re_match_Atom_complete) (use 2 in \<open>auto simp add: ch_def\<close>)
  with item show ?thesis by simp
qed

lemma grocery_item_cases:
  "(\<forall>g1 g2. \<not> dash_pattern item g1 g2) \<longrightarrow>
      grocery_item item = (lstrip_chars (ustr ''- '') (strip item), [])"
  "(\<exists>g1 g2. dash_pattern item g1 g2) \<longrightarrow>
      (\<exists>g1 g2. dash_pattern item g1 g2 \<and> grocery_item item = (strip g1, strip g2))"
proof -
  show "(\<forall>g1 g2. \<not> dash_pattern item g1 g2) \<longrightarrow>
      grocery_item item = (lstrip_chars (ustr ''- '') (strip item), [])"
  proof
    assume no: "\<forall>g1 g2. \<not> dash_pattern item g1 g2"
    have "re_match item_re item = None"
    proof (cases "re_match item_re item")
      case (Some r)
      then obtain gs rest where "re_match item_re item = Some (gs, rest)" by (cases r) auto
      from item_re_sound [OF this] no show ?thesis by blast
    qed simp
    then show "grocery_item item = (lstrip_chars (ustr ''- '') (strip item), [])"
      by (simp add: grocery_item_def)
  qed
  show "(\<exists>g1 g2. dash_pattern item g1 g2) \<longrightarrow>
      (\<exists>g1 g2. dash_pattern item g1 g2 \<and> grocery_item item = (strip g1, strip g2))"
  proof
    assume "\<exists>g1 g2. dash_pattern item g1 g2"
    then obtain h1 h2 where "dash_pattern item h1 h2" by blast
    from item_re_complete [OF this] obtain gs rest where
      m: "re_match item_re item = Some (gs, rest)" by auto
    from item_re_sound [OF m] obtain g1 g2 where "gs = [g1, g2]" "dash_pattern item g1 g2"
      by blast
    with m show "\<exists>g1 g2. dash_pattern item g1 g2 \<and> grocery_item item = (strip g1, strip g2)"
      by (auto simp add: grocery_item_def)
  qed
qed













subsection \<open>Properties of the split on day headings\<close>

declare split_scan.simps [simp del] find_scan.simps [simp del]

lemma re_match_day_split:
  "re_match day_split_re s = (if look day_heading s then Some ([], s) else None)"
  by (simp add: day_split_re_def)

lemma split_scan_day_step:
  "split_scan day_split_re adv seg s =
     (if look day_heading s \<and> \<not> adv then seg # split_scan day_split_re True [] s
      else case s of [] \<Rightarrow> [seg] | x # xs \<Rightarrow> split_scan day_split_re False (seg @ [x]) xs)"
  by (subst split_scan.simps) (simp add: re_match_day_split)










subsection \<open>The parsers on the examples\<close>

lemmas char_classes = ch_def dot_def dash_def en_dash_def py_isspace_def py_isdigit_def
  line_boundary_def

lemmas scan_simps = try_down.simps try_up.simps split_scan.simps find_scan.simps repeat_def
  re_split_def re_findall_def

lemma parse_sections_rows:
  "parse_sections secs =
     Inr (concat (map (\<lambda>sec. map (grocery_row (strip (hd (splitlines (strip sec)))))
                                 (tl (splitlines (strip sec))))
                      (filter (\<lambda>sec. strip sec \<noteq> []) secs)))"
proof (induction secs)
  case Nil
  show ?case by simp
next
  case (Cons sec secs)
  show ?case
  proof (cases "strip sec = []")
    case True
    with Cons show ?thesis by simp
  next
    case False
    from splitlines_strip [OF False] obtain c l ls where
      "splitlines (strip sec) = (c # l) # ls" by blast
    with False Cons show ?thesis by simp
  qed
qed

lemma plan_days_example:
  "plan_days plan_example =
     [\<lparr>heading = ustr ''Day 1'',
       meals = [\<lparr>meal_type = ustr ''Breakfast'', description = ustr ''Oats''\<rparr>,
                \<lparr>meal_type = ustr ''Lunch'', description = ustr ''Salad''\<rparr>]\<rparr>,
      \<lparr>heading = ustr ''Day 2'',
       meals = [\<lparr>meal_type = ustr ''Breakfast'', description = ustr ''Eggs''\<rparr>]\<rparr>]"
  by (simp add: plan_example_def plan_days_def plan_segments_def day_record_def
      day_split_re_def day_heading_def meal_re_def strip_def splitlines_def ustr_def
      List.map_filter_def scan_simps char_classes)




lemma parse_grocery_list_example:
  "parse_grocery_list grocery_example =
     Inr [\<lparr>Category = ustr ''Vegetables'', Item = ustr ''Carrot'', Quantity = ustr ''200g''\<rparr>,
          \<lparr>Category = ustr ''Fruits'', Item = ustr ''Apple'', Quantity = []\<rparr>]"
  by (simp add: grocery_example_def parse_grocery_list_def grocery_row_def grocery_item_def
      category_re_def item_re_def strip_def lstrip_chars_def splitlines_def ustr_def
      scan_simps char_classes)

subsection \<open>Properties of the display\<close>







subsection \<open>Properties of the image lookup\<close>




lemma generate_meal_image_never_raises:
  "\<exists>r. generate_meal_image image_open post prompt = Inr r"
  by (simp add: generate_meal_image_def split: sum.splits hf_reply.splits)

lemma generate_meal_image_soft:
  "generate_meal_image image_open (\<lambda>p. HfRaises e) prompt = Inr None"
  "status_code \<noteq> 200 \<Longrightarrow>
     generate_meal_image image_open (\<lambda>p. HfResponse status_code content) prompt = Inr None"
  by (simp_all add: generate_meal_image_def)

lemma search_pexels_non_200:
  assumes "\<forall>n q. \<exists>status_code body. respond env n q = Response status_code body
      \<and> status_code \<noteq> 200"
  shows "snd (search_pexels env [] meal) = Inr None"
proof -
  have r: "pexels_result (respond env n q) = Inr None" for n q
    using assms [rule_format, of n q] by (auto simp add: pexels_result_def)
  show ?thesis
    by (simp add: search_pexels_def fallback_queries_def call_pexels_api_def r)
qed

subsection \<open>Claims about the parsers\<close>




text \<open>
  Claim C10. Every day record of the plan parser, in \<^verbatim>\<open>ai_meal_pexels.py\<close> and in
  \<^verbatim>\<open>meal_hugging.py\<close>, has a non-empty heading; a segment that is empty or whitespace only
  gives no record, and a text that starts with a day heading gives such a leading empty segment.
\<close>

theorem day_plan_heading_nonempty:
  "(\<forall>d \<in> set (plan_days plan). heading d \<noteq> [])
   \<and> (\<forall>d \<in> set (hugging_days plan). fst d \<noteq> [])
   \<and> (strip seg = [] \<longrightarrow> day_record seg = None \<and> hugging_day_record seg = None)
   \<and> (look day_heading (strip plan) \<longrightarrow> (\<exists>segs. plan_segments plan = [] # segs))"
proof (intro conjI ballI impI)
  fix d assume "d \<in> set (plan_days plan)"
  then obtain seg' where "day_record seg' = Some d"
    unfolding plan_days_def using map_filter_set by fastforce
  then show "heading d \<noteq> []" by (rule day_record_heading)
next
  fix d assume "d \<in> set (hugging_days plan)"
  then obtain seg' where "hugging_day_record seg' = Some d"
    unfolding hugging_days_def using map_filter_set by fastforce
  then show "fst d \<noteq> []" by (rule hugging_day_record_heading)
next
  assume "strip seg = []"
  then show "day_record seg = None" by (simp add: day_record_None)
next
  assume "strip seg = []"
  then show "hugging_day_record seg = None" by (simp add: hugging_day_record_None)
next
  assume "look day_heading (strip plan)"
  then show "\<exists>segs. plan_segments plan = [] # segs"
    unfolding plan_segments_def re_split_def by (subst split_scan_day_step) simp
qed

text \<open>The example input: its leading empty segment is skipped, its records have headings.\<close>

theorem day_plan_heading_nonempty_witness:
  "\<lparr>heading = ustr ''Day 2'',
     meals = [\<lparr>meal_type = ustr ''Breakfast'', description = ustr ''Eggs''\<rparr>]\<rparr>
     \<in> set (plan_days plan_example)
   \<and> ustr ''Day 2'' \<noteq> []
   \<and> (ustr ''Day 2'', [ustr ''**Breakfast**: Eggs'']) \<in> set (hugging_days plan_example)
   \<and> strip (ustr ''  '') = [] \<and> day_record (ustr ''  '') = None
   \<and> hugging_day_record (ustr ''  '') = None
   \<and> look day_heading (strip plan_example)
   \<and> (\<exists>segs. plan_segments plan_example = [] # segs)"
proof -
  have h: "hugging_days plan_example =
     [(ustr ''Day 1'', [ustr ''**Breakfast**: Oats'', ustr ''**Lunch**: Salad'']),
      (ustr ''Day 2'', [ustr ''**Breakfast**: Eggs''])]"
    by (simp add: plan_example_def hugging_days_def hugging_day_record_def is_meal_line_def
      lower_def startswith_def day_split_hugging_re_def day_heading_def strip_def
      splitlines_def ustr_def List.map_filter_def scan_simps char_classes)
  have s: "strip (ustr ''  '') = []" by (simp add: strip_def ustr_def py_isspace_def)
  have l: "look day_heading (strip plan_example)"
    by (simp add: plan_example_def day_heading_def strip_def ustr_def char_classes)
  show ?thesis
    using day_plan_heading_nonempty [of plan_example "ustr ''  ''"] s l
    by (simp add: plan_days_example h)
qed

text \<open>
  Claim C4. \<^verbatim>\<open>parse_grocery_list\<close> never raises; its rows are, for each section of the split
  on \<^verbatim>\<open>##\s*\<close> that is not blank and in order, one row per line after the first, with the
  first line stripped as the category. An item line that has the shape of the dash pattern is
  split into the stripped name and quantity of such a shape; a line that has not gives the
  stripped line without its leading bullet and an empty quantity. On the example input the
  rows are (Vegetables, Carrot, 200g) and (Fruits, Apple, empty).
\<close>

theorem parse_grocery_list_rows:
  "parse_grocery_list text =
     Inr (concat (map (\<lambda>sec. map (grocery_row (strip (hd (splitlines (strip sec)))))
                                 (tl (splitlines (strip sec))))
                      (filter (\<lambda>sec. strip sec \<noteq> []) (re_split category_re text))))
   \<and> ((\<exists>g1 g2. dash_pattern item g1 g2) \<longrightarrow>
        (\<exists>g1 g2. dash_pattern item g1 g2 \<and> grocery_item item = (strip g1, strip g2)))
   \<and> ((\<forall>g1 g2. \<not> dash_pattern item g1 g2) \<longrightarrow>
        grocery_item item = (lstrip_chars (ustr ''- '') (strip item), []))
   \<and> parse_grocery_list grocery_example =
       Inr [\<lparr>Category = ustr ''Vegetables'', Item = ustr ''Carrot'', Quantity = ustr ''200g''\<rparr>,
            \<lparr>Category = ustr ''Fruits'', Item = ustr ''Apple'', Quantity = []\<rparr>]"
  using parse_sections_rows [of "re_split category_re text"] grocery_item_cases [of item]
    parse_grocery_list_example
  by (simp only: parse_grocery_list_def simp_thms)

text \<open>The two item lines of the example, one of each kind.\<close>

theorem parse_grocery_list_rows_witness:
  "(\<exists>g1 g2. dash_pattern (ustr ''- Carrot '' @ [en_dash] @ ustr '' 200g'') g1 g2)
   \<and> grocery_item (ustr ''- Carrot '' @ [en_dash] @ ustr '' 200g'') = (ustr ''Carrot'', ustr ''200g'')
   \<and> (\<forall>g1 g2. \<not> dash_pattern (ustr ''- Apple'') g1 g2)
   \<and> grocery_item (ustr ''- Apple'') = (ustr ''Apple'', [])"
proof -
  let ?carrot = "ustr ''- Carrot '' @ [en_dash] @ ustr '' 200g''"
  have c: "re_match item_re ?carrot = Some ([ustr ''Carrot'', ustr ''200g''], [])"
    by (simp add: item_re_def ustr_def scan_simps char_classes)
  from item_re_sound [OF c] have d: "\<exists>g1 g2. dash_pattern ?carrot g1 g2" by blast
  have a: "re_match item_re (ustr ''- Apple'') = None"
    by (simp add: item_re_def ustr_def scan_simps char_classes)
  have n: "\<forall>g1 g2. \<not> dash_pattern (ustr ''- Apple'') g1 g2"
    using item_re_complete [of "ustr ''- Apple''"] a by blast
  have gc: "grocery_item ?carrot = (ustr ''Carrot'', ustr ''200g'')"
    using c by (simp add: grocery_item_def strip_def ustr_def py_isspace_def)
  have ga: "lstrip_chars (ustr ''- '') (strip (ustr ''- Apple'')) = ustr ''Apple''"
    by (simp add: lstrip_chars_def strip_def ustr_def py_isspace_def)
  show ?thesis
    using parse_grocery_list_rows [of "[]" ?carrot] parse_grocery_list_rows [of "[]" "ustr ''- Apple''"]
      d n gc ga
    by simp
qed



subsection \<open>Claims about the image lookup and the display\<close>



text \<open>
  Claim C6 does not hold for the search strategy: when \<^verbatim>\<open>requests.get\<close> raises, the exception
  leaves \<^verbatim>\<open>search_pexels\<close>, and the display of the plan stops at the first meal with the
  error message of the handler around the whole flow. (\<open>generate_meal_image\<close> never raises,
  and a reply other than 200 ends both strategies without a result.)
\<close>

theorem search_pexels_propagates_exception:
  "search_pexels env_unreachable [] (ustr ''Oats'') = ([ustr ''Oats''], Inl RequestException)
   \<and> display_plan env_unreachable plan_example =
       [UiWarning, UiSubheader, UiExpander (ustr ''Day 1''), UiError RequestException]"
  by (simp add: display_plan_def env_unreachable_def get_meal_image_def search_pexels_def
      fallback_queries_def call_pexels_api_def pexels_result_def
      plan_example_def day_record_def day_token_re_def
      day_split_re_def day_heading_def meal_re_def strip_def splitlines_def ustr_def
      scan_simps char_classes)




end
